theory Spec2Isabelle
  imports Main "HOL-Library.AList"
begin

section \<open>Data model of \<^verbatim>\<open>lib/infra/infra-stack.ts\<close>\<close>

text \<open>
  The stack constructor and \<^verbatim>\<open>getCfnInitElement\<close> are embedded as functions
  over records. JavaScript numbers that hold node counts and volume sizes are integers
  (\<^typ>\<open>int\<close>, so that \<^verbatim>\<open>dataNodeCount - 1\<close> can be negative as it is
  in the source). An exception is a value \<open>Inl e\<close> of the result type.

  The network, IAM, log-group and load-balancer wiring of the constructor hands
  parameters to the provisioning library and takes no part in the decisions modelled
  here; of it only the listener targets are kept. Of \<^verbatim>\<open>infraProps\<close> the
  fields read by the modelled code are kept.
\<close>

datatype error = TypeError

datatype cpu_type = X86_64 | ARM_64

datatype instance_class = C5 | C6G | R5 | R6G | OtherClass string

datatype instance_size = XLARGE | OtherSize string

datatype instance_type = InstanceType_of instance_class instance_size

text \<open>
  The stack under construction as far as the code reads it: its name, account and
  region (\<^verbatim>\<open>getCfnInitElement\<close> receives it as \<^verbatim>\<open>scope\<close>), the
  construct id, and the name of the stack the constructor is given as its
  \<^verbatim>\<open>scope\<close>.
\<close>

record scope =
  stackName :: string
  account :: string
  region :: string
  construct_id :: string
  parent_stackName :: string

text \<open>
  \<^verbatim>\<open>jvmSysPropsString\<close>, \<^verbatim>\<open>additionalConfig\<close> and
  \<^verbatim>\<open>additionalOsdConfig\<close> are optional in the interface
  (\<^verbatim>\<open>?: string\<close>); \<open>None\<close> is JavaScript's \<^verbatim>\<open>undefined\<close>.
  \<^verbatim>\<open>dataEc2InstanceType\<close> is tested for truthiness by the constructor, so it
  is optional here as well. \<^verbatim>\<open>captureProxyEnabled\<close> is a string that the code
  uses as a condition: it is truthy exactly when it is not empty.
\<close>

record infraProps =
  cpuType :: cpu_type
  securityDisabled :: bool
  minDistribution :: bool
  distributionUrl :: string
  captureProxyEnabled :: string
  captureProxyTarUrl :: string
  dashboardsUrl :: string
  singleNodeCluster :: bool
  managerNodeCount :: int
  dataNodeCount :: int
  ingestNodeCount :: int
  clientNodeCount :: int
  mlNodeCount :: int
  dataNodeStorage :: int
  mlNodeStorage :: int
  jvmSysPropsString :: "string option"
  additionalConfig :: "string option"
  additionalOsdConfig :: "string option"
  dataEc2InstanceType :: "instance_type option"
  mlEc2InstanceType :: instance_type
  use50PercentHeap :: bool
  enableRemoteStore :: bool

text \<open>
  Parts the function reads that are not in the source files at hand, taken as
  parameters: the two base templates read from \<^verbatim>\<open>../opensearch-config\<close>
  (as loaded, a list of key and value in document order), the table
  \<^verbatim>\<open>nodeConfig\<close> of role overlays, and \<^verbatim>\<open>dump\<close> of js-yaml, which
  serialises a loaded document (\<open>None\<close> for \<^verbatim>\<open>undefined\<close>, what
  \<^verbatim>\<open>nodeConfig.get\<close> returns for an unknown node type).
\<close>

type_synonym yaml = "(string \<times> string) list"

record config_files =
  single_node_base_config :: yaml
  multi_node_base_config :: yaml
  nodeConfig :: "string \<Rightarrow> yaml option"
  dump :: "yaml option \<Rightarrow> string"

text \<open>
  The elements of a cfn-init configuration. A shell command carries its text and its
  working directory (\<^verbatim>\<open>cwd\<close>) when one is given. The agent file carries its
  path, the log file it collects and the log group name; the fixed list of collected
  metrics is left out.
\<close>

datatype init_element =
    InitPackage_yum string
  | CloudwatchAgent_asInitFile string string string
  | InitCommand_shellCommand string "string option"
  | InitFile_fromFileInline string string

definition newline :: string where
  "newline = [CHR 0x0A]"

definition squote :: string where
  "squote = [CHR 0x27]"

definition backslash :: string where
  "backslash = [CHR 0x5C]"

definition home :: "string option" where
  "home = Some ''/home/ec2-user''"

section \<open>\<^verbatim>\<open>getCfnInitElement\<close>\<close>

text \<open>
  The function pushes its elements in a fixed order; each group of pushes is a
  definition of its own, in the order of the source. The cluster name is
  \<^verbatim>\<open>${scope.stackName}-${scope.account}-${scope.region}\<close>.
\<close>

definition clusterName :: "scope \<Rightarrow> string" where
  "clusterName sc = stackName sc @ ''-'' @ account sc @ ''-'' @ region sc"

definition logGroupName :: "scope \<Rightarrow> string" where
  "logGroupName sc = construct_id sc @ ''LogGroup/elasticsearch.log''"

text \<open>The initial value of \<^verbatim>\<open>cfnInitConfig\<close>: agent, kernel setting, download.\<close>

definition initial_elements :: "scope \<Rightarrow> infraProps \<Rightarrow> init_element list" where
  \<open>initial_elements sc props =
    [ InitPackage_yum ''amazon-cloudwatch-agent'',
      CloudwatchAgent_asInitFile ''/opt/aws/amazon-cloudwatch-agent/etc/amazon-cloudwatch-agent.json''
        (''/home/ec2-user/elasticsearch/logs/'' @ clusterName sc @ ''.log'') (logGroupName sc),
      InitCommand_shellCommand
        ''set -ex;/opt/aws/amazon-cloudwatch-agent/bin/amazon-cloudwatch-agent-ctl -a stop'' None,
      InitCommand_shellCommand
        ''set -ex;/opt/aws/amazon-cloudwatch-agent/bin/amazon-cloudwatch-agent-ctl -a fetch-config -m ec2 -c file:/opt/aws/amazon-cloudwatch-agent/etc/amazon-cloudwatch-agent.json -s'' None,
      InitCommand_shellCommand
        ''set -ex; sudo echo "vm.max_map_count=262144" >> /etc/sysctl.conf;sudo sysctl -p'' None,
      InitCommand_shellCommand
        (''set -ex;mkdir elasticsearch; curl -L '' @ distributionUrl props @ '' -o elasticsearch.tar.gz;''
          @ ''tar zxf elasticsearch.tar.gz -C elasticsearch --strip-components=1; chown -R ec2-user:ec2-user elasticsearch;'')
        home,
      InitCommand_shellCommand ''sleep 15'' None ]\<close>

text \<open>
  The commands that write \<^verbatim>\<open>config/elasticsearch.yml\<close>. An assignment to a
  key of a loaded document replaces the value of an existing key in place and adds a
  new key at the end, which is \<^const>\<open>AList.update\<close>.
\<close>

definition write_base_command :: "string \<Rightarrow> init_element" where
  \<open>write_base_command text =
    InitCommand_shellCommand
      (''set -ex;cd elasticsearch; echo "'' @ text @ ''" > config/elasticsearch.yml'') home\<close>

definition append_role_command :: "string \<Rightarrow> init_element" where
  \<open>append_role_command text =
    InitCommand_shellCommand
      (''set -ex;cd elasticsearch; echo "'' @ text @ ''" >> config/elasticsearch.yml'') home\<close>

definition singleNodeConfig :: "config_files \<Rightarrow> scope \<Rightarrow> string" where
  "singleNodeConfig cf sc =
    dump cf (Some (AList.update ''cluster.name'' (clusterName sc) (single_node_base_config cf)))"

definition commonConfig :: "config_files \<Rightarrow> scope \<Rightarrow> string" where
  "commonConfig cf sc =
    dump cf (Some
      (AList.update ''discovery.ec2.tag.Name''
         (stackName sc @ ''/seedNodeAsg,'' @ stackName sc @ ''/managerNodeAsg'')
         (AList.update ''cluster.name'' (clusterName sc) (multi_node_base_config cf))))"

definition nodeConfigData :: "config_files \<Rightarrow> string \<Rightarrow> string" where
  "nodeConfigData cf nodeType = dump cf (nodeConfig cf nodeType)"

definition remote_store_elements :: "scope \<Rightarrow> init_element list" where
  \<open>remote_store_elements sc =
    [ InitCommand_shellCommand
        (''set -ex;cd opensearch; echo "node.attr.remote_store.segment.repository: '' @ stackName sc
          @ ''-repo" >> config/opensearch.yml'') home,
      InitCommand_shellCommand
        (''set -ex;cd opensearch; echo "node.attr.remote_store.repository.'' @ stackName sc
          @ ''-repo.type: s3" >> config/opensearch.yml'') home,
      InitCommand_shellCommand
        (''set -ex;cd opensearch; echo "node.attr.remote_store.repository.'' @ stackName sc
          @ ''-repo.settings:'' @ newline @ ''  bucket : '' @ stackName sc @ newline
          @ ''  base_path: remote-store'' @ newline @ ''  region: '' @ region sc
          @ ''" >> config/opensearch.yml'') home,
      InitCommand_shellCommand
        (''set -ex;cd opensearch; echo "node.attr.remote_store.translog.repository: '' @ stackName sc
          @ ''-repo" >> config/opensearch.yml'') home,
      InitCommand_shellCommand
        (''set -ex;cd opensearch; echo "node.attr.remote_store.state.repository: '' @ stackName sc
          @ ''-repo" >> config/opensearch.yml'') home ]\<close>

definition yml_elements ::
  "config_files \<Rightarrow> scope \<Rightarrow> infraProps \<Rightarrow> string option \<Rightarrow> init_element list" where
  \<open>yml_elements cf sc props nodeType =
    (if singleNodeCluster props then [write_base_command (singleNodeConfig cf sc)]
     else
       [write_base_command (commonConfig cf sc)]
       @ (case nodeType of
            None \<Rightarrow> []
          | Some nt \<Rightarrow> [append_role_command (nodeConfigData cf nt)])
       @ (if \<not> minDistribution props then
            [InitCommand_shellCommand
               ''set -ex;cd elasticsearch;sudo -u ec2-user bin/elasticsearch-plugin install discovery-ec2 --batch''
               home]
          else [])
       @ (if enableRemoteStore props then remote_store_elements sc else []))\<close>

text \<open>The JVM system properties, when the string is not \<^verbatim>\<open>'undefined'\<close>.\<close>

definition jvm_elements :: "string \<Rightarrow> init_element list" where
  \<open>jvm_elements jvm =
    (if jvm \<noteq> ''undefined'' then
       [InitCommand_shellCommand
          (''set -ex; cd elasticsearch; jvmSysPropsList=$(echo "'' @ jvm @ ''" | tr ''
            @ squote @ '','' @ squote @ '' '' @ squote @ backslash @ ''n'' @ squote @ '');''
            @ ''for sysProp in $jvmSysPropsList;do echo "-D$sysProp" >> config/jvm.options;done'')
          home]
     else [])\<close>

text \<open>The heap size, half of the memory and at most 32g, edited into \<^verbatim>\<open>config/jvm.options\<close>.\<close>

definition heap_elements :: "infraProps \<Rightarrow> init_element list" where
  \<open>heap_elements props =
    (if use50PercentHeap props then
       [InitCommand_shellCommand
          (''set -ex; cd elasticsearch;'' @ newline
            @ ''      totalMem=`expr $(free -g | awk '' @ squote @ ''/^Mem:/{print $2}'' @ squote
            @ '') + 1`;'' @ newline
            @ ''      heapSizeInGb=`expr $totalMem / 2`;'' @ newline
            @ ''      if [ $heapSizeInGb -lt 32 ];then minHeap="-Xms"$heapSizeInGb"g";maxHeap="-Xmx"$heapSizeInGb"g";else minHeap="-Xms32g";maxHeap="-Xmx32g";fi''
            @ newline
            @ ''      sed -i -e "s/^-Xms[0-9a-z]*$/$minHeap/g" config/jvm.options;'' @ newline
            @ ''      sed -i -e "s/^-Xmx[0-9a-z]*$/$maxHeap/g" config/jvm.options;'')
          home]
     else [])\<close>

text \<open>The user's additional configuration, when the string is not \<^verbatim>\<open>'undefined'\<close>.\<close>

definition append_user_command :: "string \<Rightarrow> init_element" where
  \<open>append_user_command text =
    InitCommand_shellCommand
      (''set -ex; cd elasticsearch; echo "'' @ text @ ''">>config/elasticsearch.yml'') home\<close>

definition user_elements :: "string \<Rightarrow> init_element list" where
  "user_elements addl = (if addl \<noteq> ''undefined'' then [append_user_command addl] else [])"

definition run_elements :: "init_element list" where
  \<open>run_elements =
    [InitCommand_shellCommand
       ''set -ex;cd elasticsearch; sudo -u ec2-user nohup ./bin/elasticsearch >> install.log 2>&1 &''
       home]\<close>

definition capture_proxy_elements :: "infraProps \<Rightarrow> init_element list" where
  \<open>capture_proxy_elements props =
    (if captureProxyEnabled props \<noteq> [] then
       [ InitCommand_shellCommand
           (''set -ex; curl -L0 '' @ captureProxyTarUrl props
             @ '' --output CaptureProxyX64.tar.gz; tar -xvf CaptureProxyX64.tar.gz;'')
           (Some ''/home/ec2-user/capture-proxy''),
         InitFile_fromFileInline ''/home/ec2-user/capture-proxy/startCaptureProxy.sh''
           ''./startCaptureProxy.sh'' ]
     else [])\<close>

text \<open>
  The dashboards elements; the caller passes the additional dashboards configuration,
  which the source reads only when a dashboards URL is given.
\<close>

definition dashboards_elements :: "infraProps \<Rightarrow> string \<Rightarrow> init_element list" where
  \<open>dashboards_elements props osd =
    [ InitCommand_shellCommand
        (''set -ex;mkdir opensearch-dashboards; curl -L '' @ dashboardsUrl props
          @ '' -o opensearch-dashboards.tar.gz;''
          @ ''tar zxf opensearch-dashboards.tar.gz -C opensearch-dashboards --strip-components=1; chown -R ec2-user:ec2-user opensearch-dashboards;'')
        home,
      InitCommand_shellCommand
        ''set -ex;cd opensearch-dashboards;echo "server.host: 0.0.0.0" >> config/opensearch_dashboards.yml''
        home ]
    @ (if securityDisabled props \<and> \<not> minDistribution props then
         [InitCommand_shellCommand
            (''set -ex;cd opensearch-dashboards;''
              @ ''./bin/opensearch-dashboards-plugin remove securityDashboards --allow-root;''
              @ ''sed -i /^opensearch_security/d config/opensearch_dashboards.yml;''
              @ ''sed -i '' @ squote @ ''s/https/http/'' @ squote @ '' config/opensearch_dashboards.yml'')
            home]
       else [])
    @ (if osd \<noteq> ''undefined'' then
         [InitCommand_shellCommand
            (''set -ex;cd opensearch-dashboards; echo "'' @ osd @ ''">>config/opensearch_dashboards.yml'')
            home]
       else [])
    @ [InitCommand_shellCommand
         (''set -ex;cd opensearch-dashboards;''
           @ ''sudo -u ec2-user nohup ./bin/opensearch-dashboards > dashboard_install.log 2>&1 &'')
         home]\<close>

text \<open>
  The whole function. \<^verbatim>\<open>props.jvmSysPropsString.toString()\<close> and the two
  like it throw a \<^verbatim>\<open>TypeError\<close> when the property is
  \<^verbatim>\<open>undefined\<close>; the checks are in the order of the source.
\<close>

definition getCfnInitElement ::
  "config_files \<Rightarrow> scope \<Rightarrow> infraProps \<Rightarrow> string option \<Rightarrow> error + init_element list" where
  "getCfnInitElement cf sc props nodeType =
    (case jvmSysPropsString props of
       None \<Rightarrow> Inl TypeError
     | Some jvm \<Rightarrow>
        (case additionalConfig props of
           None \<Rightarrow> Inl TypeError
         | Some addl \<Rightarrow>
            (let cfnInitConfig =
                   initial_elements sc props @ yml_elements cf sc props nodeType
                   @ jvm_elements jvm @ heap_elements props @ user_elements addl
                   @ run_elements @ capture_proxy_elements props
             in if dashboardsUrl props \<noteq> ''undefined'' then
                  (case additionalOsdConfig props of
                     None \<Rightarrow> Inl TypeError
                   | Some osd \<Rightarrow> Inr (cfnInitConfig @ dashboards_elements props osd))
                else Inr cfnInitConfig)))"

section \<open>The constructor of \<^verbatim>\<open>InfraStack\<close>\<close>

text \<open>
  The constructor builds objects and keeps references to them. The objects live in a
  store, the list \<open>asgs\<close> in creation order, and a reference to a group is its
  position in that list: two variables name the same object exactly when they hold the
  same position. \<^verbatim>\<open>Tags.of(x).add(k, v)\<close> records the tag on the object
  that \<open>x\<close> refers to, in call order.
\<close>

record asg =
  asg_id :: string
  instanceType :: "instance_type option"
  maxCapacity :: int
  minCapacity :: int
  desiredCapacity :: int
  volumeSize :: int
  init :: "init_element list"
  tags :: "(string \<times> string) list"

record ec2_instance =
  instance_id :: string
  instance_instanceType :: instance_type
  instance_volumeSize :: int
  instance_init :: "init_element list"
  instance_tags :: "(string \<times> string) list"

datatype target = AsgTarget nat | InstanceTarget nat

text \<open>
  The state of the constructor: the store, the calls of \<^verbatim>\<open>addTargets\<close>
  (listener variable, target id, port, targets), and the variables of the constructor
  that later statements read: the four declared with \<^verbatim>\<open>let\<close> at its start
  and the constant \<^verbatim>\<open>dataNodeAsg\<close>, \<open>None\<close> while unassigned.
\<close>

record infra_stack =
  asgs :: "asg list"
  instances :: "ec2_instance list"
  listenerTargets :: "(string \<times> string \<times> int \<times> target list) list"
  managerAsgCapacity :: "int option"
  dataAsgCapacity :: "int option"
  seedConfig :: "string option"
  dataNodeAsg :: "nat option"
  clientNodeAsg :: "nat option"

definition initial_stack :: infra_stack where
  "initial_stack =
    \<lparr> asgs = [], instances = [], listenerTargets = [], managerAsgCapacity = None,
      dataAsgCapacity = None, seedConfig = None, dataNodeAsg = None,
      clientNodeAsg = None \<rparr>"

definition new_AutoScalingGroup :: "asg \<Rightarrow> infra_stack \<Rightarrow> nat \<times> infra_stack" where
  "new_AutoScalingGroup g st = (length (asgs st), st\<lparr>asgs := asgs st @ [g]\<rparr>)"

definition Tags_add :: "nat \<Rightarrow> string \<Rightarrow> string \<Rightarrow> infra_stack \<Rightarrow> infra_stack" where
  "Tags_add r k v st =
    st\<lparr>asgs := (asgs st)[r := (asgs st ! r)\<lparr>tags := tags (asgs st ! r) @ [(k, v)]\<rparr>]\<rparr>"

definition addTargets ::
  "string \<Rightarrow> string \<Rightarrow> int \<Rightarrow> target list \<Rightarrow> infra_stack \<Rightarrow> infra_stack" where
  "addTargets listener tid port ts st =
    st\<lparr>listenerTargets := listenerTargets st @ [(listener, tid, port, ts)]\<rparr>"

definition and_then :: "error + 'a \<Rightarrow> ('a \<Rightarrow> error + 'b) \<Rightarrow> error + 'b" where
  "and_then r f = (case r of Inl e \<Rightarrow> Inl e | Inr x \<Rightarrow> f x)"

definition singleNodeInstanceType :: "infraProps \<Rightarrow> instance_type" where
  "singleNodeInstanceType props =
    (case dataEc2InstanceType props of
       Some t \<Rightarrow> t
     | None \<Rightarrow>
        if cpuType props = X86_64 then InstanceType_of R5 XLARGE
        else InstanceType_of R6G XLARGE)"

definition defaultInstanceType :: "infraProps \<Rightarrow> instance_type" where
  "defaultInstanceType props =
    (if cpuType props = X86_64 then InstanceType_of C5 XLARGE else InstanceType_of C6G XLARGE)"

text \<open>The branch \<^verbatim>\<open>if (props.singleNodeCluster)\<close>: one instance, no group.\<close>

definition single_node ::
  "config_files \<Rightarrow> scope \<Rightarrow> infraProps \<Rightarrow> infra_stack \<Rightarrow> error + infra_stack" where
  "single_node cf sc props st =
    and_then (getCfnInitElement cf sc props None) (\<lambda>els.
      let singleNodeInstance =
            \<lparr> instance_id = ''single-node-instance'',
              instance_instanceType = singleNodeInstanceType props,
              instance_volumeSize = dataNodeStorage props,
              instance_init = els,
              instance_tags = [(''role'', ''client'')] \<rparr>;
          r = length (instances st);
          st = st\<lparr>instances := instances st @ [singleNodeInstance]\<rparr>;
          st = addTargets ''opensearchListener'' ''single-node-target'' 9200 [InstanceTarget r] st;
          st = addTargets ''opensearchListener19200'' ''single-node-target'' 19200 [InstanceTarget r] st
      in Inr (if dashboardsUrl props \<noteq> ''undefined''
              then addTargets ''dashboardsListener'' ''single-node-osd-target'' 5601 [InstanceTarget r] st
              else st))"

text \<open>
  The other branch, statement by statement. First the two capacities
  (source lines 241 to 247).
\<close>

definition assign_capacities :: "infraProps \<Rightarrow> infra_stack \<Rightarrow> infra_stack" where
  "assign_capacities props st =
    (if managerNodeCount props > 0 then
       st\<lparr>managerAsgCapacity := Some (managerNodeCount props - 1),
          dataAsgCapacity := Some (dataNodeCount props)\<rparr>
     else
       st\<lparr>managerAsgCapacity := Some (managerNodeCount props),
          dataAsgCapacity := Some (dataNodeCount props - 1)\<rparr>)"

text \<open>
  The manager group and the choice of \<^verbatim>\<open>seedConfig\<close> (lines 249 to 281).
  The capacities are assigned before this statement runs.
\<close>

definition create_managerNodeAsg ::
  "config_files \<Rightarrow> scope \<Rightarrow> infraProps \<Rightarrow> infra_stack \<Rightarrow> error + infra_stack" where
  "create_managerNodeAsg cf sc props st =
    (let cap = the (managerAsgCapacity st) in
     if cap > 0 then
       and_then (getCfnInitElement cf sc props (Some ''manager'')) (\<lambda>els.
         let (managerNodeAsg, st) =
               new_AutoScalingGroup
                 \<lparr> asg_id = ''managerNodeAsg'',
                   instanceType = Some (defaultInstanceType props),
                   maxCapacity = cap, minCapacity = cap, desiredCapacity = cap,
                   volumeSize = 50, init = els, tags = [] \<rparr> st;
             st = Tags_add managerNodeAsg ''role'' ''manager'' st
         in Inr (st\<lparr>seedConfig := Some ''seed-manager''\<rparr>))
     else Inr (st\<lparr>seedConfig := Some ''seed-data''\<rparr>))"

text \<open>The seed group (lines 283 to 310).\<close>

definition create_seedNodeAsg ::
  "config_files \<Rightarrow> scope \<Rightarrow> infraProps \<Rightarrow> infra_stack \<Rightarrow> error + infra_stack" where
  "create_seedNodeAsg cf sc props st =
    and_then (getCfnInitElement cf sc props (seedConfig st)) (\<lambda>els.
      let (seedNodeAsg, st) =
            new_AutoScalingGroup
              \<lparr> asg_id = ''seedNodeAsg'',
                instanceType =
                  (if seedConfig st = Some ''seed-manager'' then Some (defaultInstanceType props)
                   else dataEc2InstanceType props),
                maxCapacity = 1, minCapacity = 1, desiredCapacity = 1,
                volumeSize =
                  (if seedConfig st = Some ''seed-manager'' then 50 else dataNodeStorage props),
                init = els, tags = [] \<rparr> st
      in Inr (Tags_add seedNodeAsg ''role'' ''manager'' st))"

text \<open>
  The data group (lines 312 to 338) and the client group or its stand-in
  (lines 340 to 372). The tag \<^verbatim>\<open>role: client\<close> goes to whatever
  \<^verbatim>\<open>clientNodeAsg\<close> refers to.
\<close>

definition create_dataNodeAsg ::
  "config_files \<Rightarrow> scope \<Rightarrow> infraProps \<Rightarrow> infra_stack \<Rightarrow> error + infra_stack" where
  "create_dataNodeAsg cf sc props st =
    (let cap = the (dataAsgCapacity st) in
     and_then (getCfnInitElement cf sc props (Some ''data'')) (\<lambda>els.
       let (r, st) =
             new_AutoScalingGroup
               \<lparr> asg_id = ''dataNodeAsg'',
                 instanceType = dataEc2InstanceType props,
                 maxCapacity = cap, minCapacity = cap, desiredCapacity = cap,
                 volumeSize = dataNodeStorage props, init = els, tags = [] \<rparr> st;
           st = st\<lparr>dataNodeAsg := Some r\<rparr>
       in Inr (Tags_add r ''role'' ''data'' st)))"

definition create_clientNodeAsg ::
  "config_files \<Rightarrow> scope \<Rightarrow> infraProps \<Rightarrow> infra_stack \<Rightarrow> error + infra_stack" where
  "create_clientNodeAsg cf sc props st =
    and_then
      (if clientNodeCount props = 0 then Inr (st\<lparr>clientNodeAsg := dataNodeAsg st\<rparr>)
       else
         and_then (getCfnInitElement cf sc props (Some ''client'')) (\<lambda>els.
           let (r, st) =
                 new_AutoScalingGroup
                   \<lparr> asg_id = ''clientNodeAsg'',
                     instanceType = Some (defaultInstanceType props),
                     maxCapacity = clientNodeCount props,
                     minCapacity = clientNodeCount props,
                     desiredCapacity = clientNodeCount props,
                     volumeSize = 50, init = els, tags = [] \<rparr> st;
               st = st\<lparr>clientNodeAsg := Some r\<rparr>
           in Inr (Tags_add r ''cluster'' (parent_stackName sc) st)))
      (\<lambda>st. Inr (Tags_add (the (clientNodeAsg st)) ''role'' ''client'' st))"

text \<open>The ML group (lines 374 to 403).\<close>

definition create_mlNodeAsg ::
  "config_files \<Rightarrow> scope \<Rightarrow> infraProps \<Rightarrow> infra_stack \<Rightarrow> error + infra_stack" where
  "create_mlNodeAsg cf sc props st =
    (if mlNodeCount props > 0 then
       and_then (getCfnInitElement cf sc props (Some ''ml'')) (\<lambda>els.
         let (mlNodeAsg, st) =
               new_AutoScalingGroup
                 \<lparr> asg_id = ''mlNodeAsg'',
                   instanceType = Some (mlEc2InstanceType props),
                   maxCapacity = mlNodeCount props,
                   minCapacity = mlNodeCount props,
                   desiredCapacity = mlNodeCount props,
                   volumeSize = mlNodeStorage props, init = els, tags = [] \<rparr> st
         in Inr (Tags_add mlNodeAsg ''role'' ''ml-node'' st))
     else Inr st)"

text \<open>The targets of the listeners (lines 405 to 420).\<close>

definition add_cluster_targets :: "infraProps \<Rightarrow> infra_stack \<Rightarrow> infra_stack" where
  "add_cluster_targets props st =
    (let c = the (clientNodeAsg st);
         st = addTargets ''opensearchListener'' ''elasticsearchTarget'' 9200 [AsgTarget c] st;
         st = addTargets ''opensearchListener19200'' ''elasticsearchTarget'' 19200 [AsgTarget c] st
     in if dashboardsUrl props \<noteq> ''undefined''
        then addTargets ''dashboardsListener'' ''dashboardsTarget'' 5601 [AsgTarget c] st
        else st)"

definition multi_node ::
  "config_files \<Rightarrow> scope \<Rightarrow> infraProps \<Rightarrow> infra_stack \<Rightarrow> error + infra_stack" where
  "multi_node cf sc props st =
    and_then (create_managerNodeAsg cf sc props (assign_capacities props st)) (\<lambda>st.
    and_then (create_seedNodeAsg cf sc props st) (\<lambda>st.
    and_then (create_dataNodeAsg cf sc props st) (\<lambda>st.
    and_then (create_clientNodeAsg cf sc props st) (\<lambda>st.
    and_then (create_mlNodeAsg cf sc props st) (\<lambda>st.
    Inr (add_cluster_targets props st))))))"

definition InfraStack :: "config_files \<Rightarrow> scope \<Rightarrow> infraProps \<Rightarrow> error + infra_stack" where
  "InfraStack cf sc props =
    (if singleNodeCluster props then single_node cf sc props initial_stack
     else multi_node cf sc props initial_stack)"

text \<open>Looking a group up by the id it was constructed with.\<close>

definition find_asg :: "string \<Rightarrow> infra_stack \<Rightarrow> asg option" where
  "find_asg name st = find (\<lambda>g. asg_id g = name) (asgs st)"

text \<open>
  The properties \<^verbatim>\<open>getCfnInitElement\<close> dereferences are defined: with them
  every call of it returns.
\<close>

definition props_defined :: "infraProps \<Rightarrow> bool" where
  "props_defined props \<longleftrightarrow>
     jvmSysPropsString props \<noteq> None \<and> additionalConfig props \<noteq> None \<and>
     (dashboardsUrl props \<noteq> ''undefined'' \<longrightarrow> additionalOsdConfig props \<noteq> None)"

section \<open>The configuration document on the node\<close>







section \<open>The supervisor script \<^verbatim>\<open>startCaptureProxy.sh\<close>\<close>

text \<open>
  The script runs under \<^verbatim>\<open>set -e\<close>: a command that returns a status other
  than zero ends the script with that status, unless it stands in a condition or on the
  left of \<^verbatim>\<open>||\<close>. A run is modelled by the list of commands it executes (the
  trace), the lines of \<^verbatim>\<open>elasticsearch.yml\<close> it leaves, and its exit status.

  What the script observes is given by the node: the output of the two
  \<^verbatim>\<open>pgrep\<close> calls at the start (the empty string when no process matches,
  by \<^verbatim>\<open>|| echo ""\<close>), the lines of the configuration file, the output of
  \<^verbatim>\<open>pgrep\<close> after the wait, and the lines of \<^verbatim>\<open>nohup.out\<close> when that file
  exists. The directories and the configuration file exist, \<^verbatim>\<open>kill\<close>,
  \<^verbatim>\<open>sed\<close> and \<^verbatim>\<open>tail\<close> succeed, and \<^verbatim>\<open>KAFKA_ENDPOINTS\<close> is unset
  when the script starts.
\<close>

datatype action =
    Echo string
  | Pgrep string
  | Cd string
  | Grep_http_port
  | Append_config string
  | Sed_config
  | Kill string
  | Start_elasticsearch
  | Export_JAVA_HOME
  | Start_capture_proxy string
  | Sleep nat
  | Tail "string list"

record node =
  es_pid :: string
  capture_pid :: string
  yml :: "string list"
  capture_pid_verify :: string
  nohup_out :: "string list option"

record run =
  trace :: "action list"
  config :: "string list"

record outcome = run +
  exit_status :: int

definition usage :: "action list" where
  \<open>usage =
    [ Echo [],
      Echo ''Restarts ES node with port 19200 and start capture proxy on port 9200'',
      Echo [],
      Echo ''Usage: '',
      Echo ''  ./startCaptureProxy.sh <--kafka-endpoints STRING>'',
      Echo [],
      Echo ''Options:'',
      Echo (''  --kafka-endpoints                     Kafka broker endpoints that captured traffic will be sent to e.g. ''
            @ squote @ ''broker1:9092,broker2:9092'' @ squote @ ''.''),
      Echo [] ]\<close>

text \<open>
  The option loop (lines 18 to 36). The result is the output so far and the value of
  \<^verbatim>\<open>KAFKA_ENDPOINTS\<close> when the loop ends, or \<open>None\<close> when the script has
  exited with status 1: through \<^verbatim>\<open>usage\<close>, or because the second
  \<^verbatim>\<open>shift\<close> found no argument left.
\<close>

fun parse_args :: "string \<Rightarrow> string list \<Rightarrow> action list \<times> string option" where
  "parse_args k [] = ([], Some k)"
| "parse_args k (a # rest) =
    (if a = ''--kafka-endpoints'' then
       (case rest of
          [] \<Rightarrow> ([], None)
        | v # rest' \<Rightarrow> parse_args v rest')
     else if a = ''-h'' \<or> a = ''--help'' then (usage, None)
     else if take 1 a = ''-'' then (Echo (''Unknown option '' @ a) # usage, None)
     else parse_args k rest)"

text \<open>
  \<^verbatim>\<open>grep "http.port"\<close> selects the lines with a match of the pattern, in which
  the dot stands for any character; its status is 1 when it selects none.
\<close>

definition http_port_here :: "string \<Rightarrow> bool" where
  "http_port_here s \<longleftrightarrow> take 4 s = ''http'' \<and> take 4 (drop 5 s) = ''port''"

fun grep_http_port :: "string \<Rightarrow> bool" where
  "grep_http_port [] = False"
| "grep_http_port (c # cs) = (http_port_here (c # cs) \<or> grep_http_port cs)"

fun join_lines :: "string list \<Rightarrow> string" where
  "join_lines [] = []"
| "join_lines [l] = l"
| "join_lines (l # m # ls) = l @ newline @ join_lines (m # ls)"

text \<open>
  \<^verbatim>\<open>sed -i 's/http.port: [0-9]\+/http.port: 19200/'\<close> replaces, in every line, the
  leftmost match of the pattern with its longest run of digits.
\<close>

definition is_digit :: "char \<Rightarrow> bool" where
  "is_digit c \<longleftrightarrow> c \<in> set ''0123456789''"

definition sed_here :: "string \<Rightarrow> bool" where
  "sed_here s \<longleftrightarrow>
     take 4 s = ''http'' \<and> take 6 (drop 5 s) = ''port: '' \<and>
     (case drop 11 s of [] \<Rightarrow> False | d # _ \<Rightarrow> is_digit d)"

fun sed_line :: "string \<Rightarrow> string" where
  "sed_line [] = []"
| "sed_line (c # cs) =
     (if sed_here (c # cs) then ''http.port: 19200'' @ dropWhile is_digit (drop 11 (c # cs))
      else c # sed_line cs)"

text \<open>The observation of the two processes (lines 38 to 50).\<close>

definition observe :: "node \<Rightarrow> action list" where
  "observe n =
    [ Pgrep ''bin/elasticsearch'',
      Echo (if es_pid n = [] then ''No running Elasticsearch process detected''
            else ''Elasticsearch process PID: '' @ es_pid n),
      Pgrep ''trafficCaptureProxyServer'',
      Echo (if capture_pid n = [] then ''No running Capture Proxy process detected''
            else ''Capture Proxy process PID: '' @ capture_pid n) ]"

text \<open>
  The port setting (lines 59 to 70), given the text of the selected lines. The result is
  the run so far and \<^verbatim>\<open>es_needs_restart\<close>.
\<close>

definition reconcile_port :: "string \<Rightarrow> run \<Rightarrow> run \<times> bool" where
  "reconcile_port es_http_port_entry r =
    (if es_http_port_entry = [] then
       (r\<lparr>trace := trace r @
            [ Echo (''Appending '' @ squote @ ''http.port: 19200'' @ squote @ '' to elasticsearch.yml''),
              Append_config ''http.port: 19200'' ],
          config := config r @ [''http.port: 19200'']\<rparr>, True)
     else if es_http_port_entry = ''http.port: 19200'' then
       (r\<lparr>trace := trace r @
            [Echo (''Correct http.port already exists: '' @ es_http_port_entry)]\<rparr>, False)
     else
       (r\<lparr>trace := trace r @ [Echo (''Replacing existing '' @ es_http_port_entry), Sed_config],
          config := map sed_line (config r)\<rparr>, True))"

text \<open>The primary (lines 72 to 80).\<close>

definition start_service :: "node \<Rightarrow> bool \<Rightarrow> action list" where
  "start_service n es_needs_restart =
    Cd ''/home/ec2-user/elasticsearch'' #
    (if es_pid n = [] then [Echo ''Starting Elasticsearch process'', Start_elasticsearch]
     else if es_needs_restart then
       [Echo ''Restarting Elasticsearch process'', Kill (es_pid n), Start_elasticsearch]
     else [])"

text \<open>The sidecar (lines 82 to 89).\<close>

definition start_sidecar :: "string \<Rightarrow> node \<Rightarrow> action list" where
  "start_sidecar kafka n =
    [Export_JAVA_HOME, Cd ''/home/ec2-user/capture-proxy/trafficCaptureProxyServer/bin'']
    @ (if capture_pid n \<noteq> [] then
         [Echo ''Stopping running Capture Proxy process'', Kill (capture_pid n)]
       else [])
    @ [Echo ''Starting Capture Proxy process'', Start_capture_proxy kafka]"

text \<open>The check after the wait, to the end of the script (lines 91 to 100).\<close>

definition verify_sidecar :: "node \<Rightarrow> action list" where
  "verify_sidecar n =
    [Sleep 5, Pgrep ''trafficCaptureProxyServer'']
    @ (if capture_pid_verify n = [] then
         Echo ''Capture Proxy appears to have encountered issue on startup'' #
         (case nohup_out n of
            None \<Rightarrow> []
          | Some ls \<Rightarrow> [Echo ''Capture Proxy final log statements: '', Tail (drop (length ls - 50) ls)])
       else [])
    @ [Echo ''Completed startCaptureProxy.sh'']"

text \<open>
  The script after the option loop. The assignment of line 58 has the status of its
  pipeline, which is that of \<^verbatim>\<open>grep\<close>, and nothing guards it: when no line is
  selected the script ends there with status 1.
\<close>

definition supervise :: "string \<Rightarrow> node \<Rightarrow> action list \<Rightarrow> outcome" where
  "supervise kafka n out =
    (let t = out @ observe n in
     if es_pid n \<noteq> [] \<and> capture_pid n \<noteq> [] then
       \<lparr> trace = t @ [Echo ''Both Elasticsearch and Capture Proxy processes are running, no actions will be performed.''],
         config = yml n, exit_status = 0 \<rparr>
     else
       let t = t @ [Cd ''/home/ec2-user/elasticsearch/config'', Grep_http_port];
           selected = filter grep_http_port (yml n)
       in if selected = [] then \<lparr> trace = t, config = yml n, exit_status = 1 \<rparr>
          else
            let (r, es_needs_restart) =
                  reconcile_port (join_lines selected) \<lparr> trace = t, config = yml n \<rparr>
            in \<lparr> trace = trace r @ start_service n es_needs_restart @ start_sidecar kafka n
                         @ verify_sidecar n,
                 config = config r, exit_status = 0 \<rparr>)"

definition startCaptureProxy :: "string list \<Rightarrow> node \<Rightarrow> outcome" where
  "startCaptureProxy args n =
    (case parse_args [] args of
       (out, None) \<Rightarrow> \<lparr> trace = out, config = yml n, exit_status = 1 \<rparr>
     | (out, Some kafka) \<Rightarrow> supervise kafka n out)"

text \<open>The commands that change the node: the file, a process killed, a process started.\<close>

fun mutation :: "action \<Rightarrow> bool" where
  "mutation (Append_config _) = True"
| "mutation Sed_config = True"
| "mutation (Kill _) = True"
| "mutation Start_elasticsearch = True"
| "mutation (Start_capture_proxy _) = True"
| "mutation _ = False"

text \<open>The commands that read the process table.\<close>

fun inspection :: "action \<Rightarrow> bool" where
  "inspection (Pgrep _) = True"
| "inspection _ = False"

text \<open>The command that prints the end of the sidecar's log.\<close>

fun log_tail :: "action \<Rightarrow> bool" where
  "log_tail (Tail _) = True"
| "log_tail _ = False"

section \<open>Concrete inputs\<close>

text \<open>
  Inputs on which the definitions are evaluated below. The serialiser used there
  writes one line \<^verbatim>\<open>key: value\<close> per entry, and nothing for
  \<^verbatim>\<open>undefined\<close>.
\<close>

definition example_dump :: "yaml option \<Rightarrow> string" where
  "example_dump doc =
    (case doc of
       None \<Rightarrow> []
     | Some kvs \<Rightarrow> concat (map (\<lambda>(k, v). k @ '': '' @ v @ newline) kvs))"

definition example_files :: config_files where
  "example_files =
    \<lparr> single_node_base_config = [(''discovery.type'', ''single-node'')],
      multi_node_base_config = [(''cluster.name'', ''base''), (''http.port'', ''9200'')],
      nodeConfig =
        (\<lambda>nt. if nt = ''data'' then Some [(''node.roles'', ''data'')]
              else if nt = ''seed-data'' then Some [(''node.name'', ''seed'')]
              else None),
      dump = example_dump \<rparr>"

definition example_scope :: scope where
  "example_scope =
    \<lparr> stackName = ''stack'', account = ''1'', region = ''us'', construct_id = ''infra'',
      parent_stackName = ''app'' \<rparr>"

definition example_props :: infraProps where
  "example_props =
    \<lparr> cpuType = X86_64, securityDisabled = True, minDistribution = True,
      distributionUrl = ''url'', captureProxyEnabled = [], captureProxyTarUrl = [],
      dashboardsUrl = ''undefined'', singleNodeCluster = False,
      managerNodeCount = 3, dataNodeCount = 4, ingestNodeCount = 0, clientNodeCount = 0,
      mlNodeCount = 0, dataNodeStorage = 100, mlNodeStorage = 100,
      jvmSysPropsString = Some ''undefined'', additionalConfig = Some ''undefined'',
      additionalOsdConfig = Some ''undefined'',
      dataEc2InstanceType = Some (InstanceType_of R5 XLARGE),
      mlEc2InstanceType = InstanceType_of R5 XLARGE,
      use50PercentHeap = False, enableRemoteStore = False \<rparr>"

definition example_node :: node where
  "example_node =
    \<lparr> es_pid = ''4242'', capture_pid = [], yml = [''cluster.name: demo'', ''http.port: 9200''],
      capture_pid_verify = [], nohup_out = None \<rparr>"

section \<open>Properties of the constructor\<close>

text \<open>
  Each statement of the constructor has an explicit result once
  \<^verbatim>\<open>getCfnInitElement\<close> returns; composed, they give the state the
  constructor returns in distributed mode.
\<close>

lemma getCfnInitElement_defined:
  "props_defined props \<Longrightarrow> \<exists>els. getCfnInitElement cf sc props nt = Inr els"
  by (auto simp: props_defined_def getCfnInitElement_def Let_def)

lemma and_then_Inr: "and_then (Inr x) f = f x"
  by (simp add: and_then_def)

lemma Tags_add_last:
  "asgs st = xs @ [g] \<Longrightarrow>
   Tags_add (length xs) k v st = st\<lparr>asgs := xs @ [g\<lparr>tags := tags g @ [(k, v)]\<rparr>]\<rparr>"
  by (simp add: Tags_add_def)

lemma create_managerNodeAsg_eq:
  assumes "props_defined props"
  shows "create_managerNodeAsg cf sc props st =
    Inr (st\<lparr>asgs := asgs st @
        (if the (managerAsgCapacity st) > 0 then
          [\<lparr> asg_id = ''managerNodeAsg'', instanceType = Some (defaultInstanceType props),
             maxCapacity = the (managerAsgCapacity st), minCapacity = the (managerAsgCapacity st),
             desiredCapacity = the (managerAsgCapacity st), volumeSize = 50,
             init = projr (getCfnInitElement cf sc props (Some ''manager'')),
             tags = [(''role'', ''manager'')] \<rparr>]
         else []),
        seedConfig := Some (if the (managerAsgCapacity st) > 0 then ''seed-manager'' else ''seed-data'')\<rparr>)"
proof -
  obtain els where "getCfnInitElement cf sc props (Some ''manager'') = Inr els"
    using getCfnInitElement_defined[OF assms] by blast
  then show ?thesis
    using assms by (simp add: create_managerNodeAsg_def and_then_def new_AutoScalingGroup_def Tags_add_last Let_def)
qed

lemma create_seedNodeAsg_eq:
  assumes "props_defined props"
  shows "create_seedNodeAsg cf sc props st =
    Inr (st\<lparr>asgs := asgs st @
        [\<lparr> asg_id = ''seedNodeAsg'',
           instanceType = (if seedConfig st = Some ''seed-manager''
                           then Some (defaultInstanceType props) else dataEc2InstanceType props),
           maxCapacity = 1, minCapacity = 1, desiredCapacity = 1,
           volumeSize = (if seedConfig st = Some ''seed-manager'' then 50 else dataNodeStorage props),
           init = projr (getCfnInitElement cf sc props (seedConfig st)),
           tags = [(''role'', ''manager'')] \<rparr>]\<rparr>)"
proof -
  obtain els where "getCfnInitElement cf sc props (seedConfig st) = Inr els"
    using getCfnInitElement_defined[OF assms] by blast
  then show ?thesis
    using assms by (simp add: create_seedNodeAsg_def and_then_def new_AutoScalingGroup_def Tags_add_last Let_def)
qed

lemma create_dataNodeAsg_eq:
  assumes "props_defined props"
  shows "create_dataNodeAsg cf sc props st =
    Inr (st\<lparr>asgs := asgs st @
        [\<lparr> asg_id = ''dataNodeAsg'', instanceType = dataEc2InstanceType props,
           maxCapacity = the (dataAsgCapacity st), minCapacity = the (dataAsgCapacity st),
           desiredCapacity = the (dataAsgCapacity st),
           volumeSize = dataNodeStorage props,
           init = projr (getCfnInitElement cf sc props (Some ''data'')),
           tags = [(''role'', ''data'')] \<rparr>],
        dataNodeAsg := Some (length (asgs st))\<rparr>)"
proof -
  obtain els where "getCfnInitElement cf sc props (Some ''data'') = Inr els"
    using getCfnInitElement_defined[OF assms] by blast
  then show ?thesis
    using assms by (simp add: create_dataNodeAsg_def and_then_def new_AutoScalingGroup_def Tags_add_last Let_def)
qed

lemma create_clientNodeAsg_zero:
  assumes "clientNodeCount props = 0" and "asgs st = xs @ [g]" and "dataNodeAsg st = Some (length xs)"
  shows "create_clientNodeAsg cf sc props st =
    Inr (st\<lparr>asgs := xs @ [g\<lparr>tags := tags g @ [(''role'', ''client'')]\<rparr>],
           clientNodeAsg := Some (length xs)\<rparr>)"
  using assms by (simp add: create_clientNodeAsg_def and_then_def Tags_add_last)

lemma create_clientNodeAsg_nonzero:
  assumes "props_defined props" and "clientNodeCount props \<noteq> 0"
  shows "create_clientNodeAsg cf sc props st =
    Inr (st\<lparr>asgs := asgs st @
        [\<lparr> asg_id = ''clientNodeAsg'', instanceType = Some (defaultInstanceType props),
           maxCapacity = clientNodeCount props, minCapacity = clientNodeCount props,
           desiredCapacity = clientNodeCount props, volumeSize = 50,
           init = projr (getCfnInitElement cf sc props (Some ''client'')),
           tags = [(''cluster'', parent_stackName sc), (''role'', ''client'')] \<rparr>],
         clientNodeAsg := Some (length (asgs st))\<rparr>)"
proof -
  obtain els where "getCfnInitElement cf sc props (Some ''client'') = Inr els"
    using getCfnInitElement_defined[OF assms(1)] by blast
  then show ?thesis
    using assms by (simp add: create_clientNodeAsg_def and_then_def new_AutoScalingGroup_def Tags_add_last Let_def)
qed

lemma create_mlNodeAsg_eq:
  assumes "props_defined props"
  shows "create_mlNodeAsg cf sc props st =
    Inr (st\<lparr>asgs := asgs st @
        (if mlNodeCount props > 0 then
          [\<lparr> asg_id = ''mlNodeAsg'', instanceType = Some (mlEc2InstanceType props),
             maxCapacity = mlNodeCount props, minCapacity = mlNodeCount props,
             desiredCapacity = mlNodeCount props, volumeSize = mlNodeStorage props,
             init = projr (getCfnInitElement cf sc props (Some ''ml'')),
             tags = [(''role'', ''ml-node'')] \<rparr>]
         else [])\<rparr>)"
proof -
  obtain els where "getCfnInitElement cf sc props (Some ''ml'') = Inr els"
    using getCfnInitElement_defined[OF assms] by blast
  then show ?thesis
    using assms by (simp add: create_mlNodeAsg_def and_then_def new_AutoScalingGroup_def Tags_add_last Let_def)
qed


lemma multi_node_shape:
  assumes single: "\<not> singleNodeCluster props" and defd: "props_defined props"
    and mcap: "mcap = (if managerNodeCount props > 0 then managerNodeCount props - 1
                       else managerNodeCount props)"
    and dcap: "dcap = (if managerNodeCount props > 0 then dataNodeCount props
                       else dataNodeCount props - 1)"
    and sconf: "sconf = (if mcap > 0 then ''seed-manager'' else ''seed-data'')"
    and M: "M = (if mcap > 0 then
          [\<lparr> asg_id = ''managerNodeAsg'', instanceType = Some (defaultInstanceType props),
             maxCapacity = mcap, minCapacity = mcap, desiredCapacity = mcap, volumeSize = 50,
             init = projr (getCfnInitElement cf sc props (Some ''manager'')),
             tags = [(''role'', ''manager'')] \<rparr>]
         else [])"
    and seed: "seed =
          \<lparr> asg_id = ''seedNodeAsg'',
            instanceType = (if sconf = ''seed-manager''
                            then Some (defaultInstanceType props) else dataEc2InstanceType props),
            maxCapacity = 1, minCapacity = 1, desiredCapacity = 1,
            volumeSize = (if sconf = ''seed-manager'' then 50 else dataNodeStorage props),
            init = projr (getCfnInitElement cf sc props (Some sconf)),
            tags = [(''role'', ''manager'')] \<rparr>"
    and data: "data =
          \<lparr> asg_id = ''dataNodeAsg'', instanceType = dataEc2InstanceType props,
            maxCapacity = dcap, minCapacity = dcap, desiredCapacity = dcap,
            volumeSize = dataNodeStorage props,
            init = projr (getCfnInitElement cf sc props (Some ''data'')),
            tags = (''role'', ''data'') #
                   (if clientNodeCount props = 0 then [(''role'', ''client'')] else []) \<rparr>"
    and C: "C = (if clientNodeCount props = 0 then []
         else
          [\<lparr> asg_id = ''clientNodeAsg'', instanceType = Some (defaultInstanceType props),
             maxCapacity = clientNodeCount props, minCapacity = clientNodeCount props,
             desiredCapacity = clientNodeCount props, volumeSize = 50,
             init = projr (getCfnInitElement cf sc props (Some ''client'')),
             tags = [(''cluster'', parent_stackName sc), (''role'', ''client'')] \<rparr>])"
    and L: "L = (if mlNodeCount props > 0 then
          [\<lparr> asg_id = ''mlNodeAsg'', instanceType = Some (mlEc2InstanceType props),
             maxCapacity = mlNodeCount props, minCapacity = mlNodeCount props,
             desiredCapacity = mlNodeCount props, volumeSize = mlNodeStorage props,
             init = projr (getCfnInitElement cf sc props (Some ''ml'')),
             tags = [(''role'', ''ml-node'')] \<rparr>]
         else [])"
    and cref: "cref = (if clientNodeCount props = 0 then length M + 1 else length M + 2)"
  shows "InfraStack cf sc props =
     Inr \<lparr> asgs = M @ [seed, data] @ C @ L, instances = [],
           listenerTargets =
             [(''opensearchListener'', ''elasticsearchTarget'', 9200, [AsgTarget cref]),
              (''opensearchListener19200'', ''elasticsearchTarget'', 19200, [AsgTarget cref])]
             @ (if dashboardsUrl props \<noteq> ''undefined''
                then [(''dashboardsListener'', ''dashboardsTarget'', 5601, [AsgTarget cref])]
                else []),
           managerAsgCapacity = Some mcap, dataAsgCapacity = Some dcap,
           seedConfig = Some sconf, dataNodeAsg = Some (length M + 1),
           clientNodeAsg = Some cref \<rparr>"
proof -
  let ?s0 = "\<lparr> asgs = [], instances = [], listenerTargets = [],
               managerAsgCapacity = Some mcap, dataAsgCapacity = Some dcap,
               seedConfig = None, dataNodeAsg = None, clientNodeAsg = None \<rparr>"
  let ?s1 = "?s0\<lparr>asgs := M, seedConfig := Some sconf\<rparr>"
  let ?s2 = "?s1\<lparr>asgs := M @ [seed]\<rparr>"
  let ?d = "data\<lparr>tags := [(''role'', ''data'')]\<rparr>"
  let ?s3 = "?s2\<lparr>asgs := (M @ [seed]) @ [?d], dataNodeAsg := Some (length M + 1)\<rparr>"
  let ?s4 = "?s3\<lparr>asgs := M @ [seed, data] @ C, clientNodeAsg := Some cref\<rparr>"
  let ?s5 = "?s4\<lparr>asgs := M @ [seed, data] @ C @ L\<rparr>"
  have a0: "assign_capacities props initial_stack = ?s0"
    by (simp add: assign_capacities_def initial_stack_def mcap dcap)
  have a1: "create_managerNodeAsg cf sc props ?s0 = Inr ?s1"
    by (simp add: create_managerNodeAsg_eq[OF defd] M sconf)
  have a2: "create_seedNodeAsg cf sc props ?s1 = Inr ?s2"
    by (simp add: create_seedNodeAsg_eq[OF defd] seed sconf)
  have a3: "create_dataNodeAsg cf sc props ?s2 = Inr ?s3"
    by (simp add: create_dataNodeAsg_eq[OF defd] data)
  have a4: "create_clientNodeAsg cf sc props ?s3 = Inr ?s4"
  proof (cases "clientNodeCount props = 0")
    case True
    have "create_clientNodeAsg cf sc props ?s3 =
        Inr (?s3\<lparr>asgs := (M @ [seed]) @ [?d\<lparr>tags := tags ?d @ [(''role'', ''client'')]\<rparr>],
                  clientNodeAsg := Some (length (M @ [seed]))\<rparr>)"
      by (rule create_clientNodeAsg_zero[OF True]) simp_all
    then show ?thesis using True by (simp add: data C cref)
  next
    case False
    then show ?thesis
      by (simp add: create_clientNodeAsg_nonzero[OF defd False] data C cref)
  qed
  have a5: "create_mlNodeAsg cf sc props ?s4 = Inr ?s5"
    by (simp add: create_mlNodeAsg_eq[OF defd] L)
  have "multi_node cf sc props initial_stack = Inr (add_cluster_targets props ?s5)"
    by (simp only: multi_node_def a0 a1 a2 a3 a4 a5 and_then_Inr)
  then show ?thesis
    using single
    by (simp add: InfraStack_def add_cluster_targets_def addTargets_def Let_def)
qed


lemma single_node_shape:
  assumes "singleNodeCluster props" and "props_defined props"
  shows "\<exists>st. InfraStack cf sc props = Inr st \<and> asgs st = []"
proof -
  obtain els where "getCfnInitElement cf sc props None = Inr els"
    using getCfnInitElement_defined[OF assms(2)] by blast
  then show ?thesis
    using assms(1)
    by (simp add: InfraStack_def single_node_def and_then_def addTargets_def Let_def
        initial_stack_def)
qed

section \<open>The topology planner\<close>

text \<open>
  Claim C1, as the code has it. In distributed mode with \<open>managerNodeCount > 0\<close>
  and the dereferenced properties defined, the constructor returns; the manager capacity
  is \<open>managerNodeCount - 1\<close>; the data group is created with capacity
  \<open>dataNodeCount\<close>; no manager group is created exactly when
  \<open>managerNodeCount = 1\<close>; and when \<open>managerNodeCount > 1\<close> the seed
  configuration is \<^verbatim>\<open>seed-manager\<close> and the manager group has
  \<open>managerNodeCount - 1\<close> instances.
\<close>

theorem C1_seed_from_manager:
  assumes "\<not> singleNodeCluster props" and "props_defined props"
    and "0 < managerNodeCount props"
  shows "\<exists>st. InfraStack cf sc props = Inr st \<and>
     managerAsgCapacity st = Some (managerNodeCount props - 1) \<and>
     dataAsgCapacity st = Some (dataNodeCount props) \<and>
     (\<exists>g. find_asg ''dataNodeAsg'' st = Some g \<and> desiredCapacity g = dataNodeCount props) \<and>
     (find_asg ''managerNodeAsg'' st = None) = (managerNodeCount props = 1) \<and>
     (1 < managerNodeCount props \<longrightarrow>
        seedConfig st = Some ''seed-manager'' \<and>
        (\<exists>g. find_asg ''managerNodeAsg'' st = Some g \<and>
             desiredCapacity g = managerNodeCount props - 1))"
  using assms(3)
  by (simp add: multi_node_shape[OF assms(1,2) refl refl refl refl refl refl refl refl refl]
      find_asg_def)

theorem C1_seed_from_manager_witness:
  "\<not> singleNodeCluster example_props \<and> props_defined example_props \<and>
   1 < managerNodeCount example_props \<and>
   (\<exists>st. InfraStack example_files example_scope example_props = Inr st \<and>
      managerAsgCapacity st = Some 2 \<and> dataAsgCapacity st = Some 4 \<and>
      seedConfig st = Some ''seed-manager'' \<and>
      (\<exists>g. find_asg ''managerNodeAsg'' st = Some g \<and> desiredCapacity g = 2) \<and>
      (\<exists>g. find_asg ''dataNodeAsg'' st = Some g \<and> desiredCapacity g = 4))"
proof -
  have h: "\<not> singleNodeCluster example_props" "props_defined example_props"
    "0 < managerNodeCount example_props"
    by (simp_all add: example_props_def props_defined_def)
  have m: "managerNodeCount example_props = 3" "dataNodeCount example_props = 4"
    by (simp_all add: example_props_def)
  show ?thesis
    using h C1_seed_from_manager[OF h, of example_files example_scope] by (auto simp: m)
qed

text \<open>
  With one manager node the claim of C1 as stated fails: the seed configuration is
  \<^verbatim>\<open>seed-data\<close> and there is no manager group.
\<close>

theorem C1_counterexample:
  "\<not> singleNodeCluster (example_props\<lparr>managerNodeCount := 1\<rparr>) \<and>
   0 < managerNodeCount (example_props\<lparr>managerNodeCount := 1\<rparr>) \<and>
   map_sum id seedConfig
     (InfraStack example_files example_scope (example_props\<lparr>managerNodeCount := 1\<rparr>))
     = Inr (Some ''seed-data'') \<and>
   map_sum id (find_asg ''managerNodeAsg'')
     (InfraStack example_files example_scope (example_props\<lparr>managerNodeCount := 1\<rparr>))
     = Inr None"
proof -
  have h: "\<not> singleNodeCluster (example_props\<lparr>managerNodeCount := 1\<rparr>)"
    "props_defined (example_props\<lparr>managerNodeCount := 1\<rparr>)"
    by (simp_all add: example_props_def props_defined_def)
  show ?thesis
    by (simp add: multi_node_shape[OF h refl refl refl refl refl refl refl refl refl]
        find_asg_def)
      (simp add: example_props_def)
qed

text \<open>
  Claim C2 against the code. In distributed mode with no manager and no data node the
  constructor returns no error: it computes the data capacity \<open>- 1\<close>, creates the
  seed group and constructs the data group with that capacity.
\<close>

theorem C2_no_nodes_evaluated:
  "\<not> singleNodeCluster (example_props\<lparr>managerNodeCount := 0, dataNodeCount := 0\<rparr>) \<and>
   map_sum id (\<lambda>st. (dataAsgCapacity st, map (\<lambda>g. (asg_id g, desiredCapacity g)) (asgs st)))
     (InfraStack example_files example_scope
        (example_props\<lparr>managerNodeCount := 0, dataNodeCount := 0\<rparr>))
     = Inr (Some (- 1), [(''seedNodeAsg'', 1), (''dataNodeAsg'', - 1)])"
proof -
  have h: "\<not> singleNodeCluster (example_props\<lparr>managerNodeCount := 0, dataNodeCount := 0\<rparr>)"
    "props_defined (example_props\<lparr>managerNodeCount := 0, dataNodeCount := 0\<rparr>)"
    by (simp_all add: example_props_def props_defined_def)
  show ?thesis
    by (simp add: multi_node_shape[OF h refl refl refl refl refl refl refl refl refl])
      (simp add: example_props_def)
qed

text \<open>
  Claim C5, as the code has it. Whenever the constructor returns, every group other
  than the data group has a size that is not zero (the manager and ML groups are guarded
  by \<open>> 0\<close>, the seed has size 1, a client group is created only for a client count
  other than zero). The data group is created unconditionally in distributed mode, with
  the data capacity as its size, whatever that is: for no manager and one data node, no
  client and no ML node, the groups are the seed of size 1 and the data group of size 0.
\<close>

theorem C5_group_sizes:
  assumes "props_defined props"
  shows "\<exists>st. InfraStack cf sc props = Inr st \<and>
     (\<forall>g \<in> set (asgs st). asg_id g \<noteq> ''dataNodeAsg'' \<longrightarrow> desiredCapacity g \<noteq> 0) \<and>
     (\<not> singleNodeCluster props \<longrightarrow>
        (\<exists>g. find_asg ''dataNodeAsg'' st = Some g \<and>
             Some (desiredCapacity g) = dataAsgCapacity st \<and>
             desiredCapacity g =
               (if 0 < managerNodeCount props then dataNodeCount props
                else dataNodeCount props - 1)) \<and>
        (managerNodeCount props = 0 \<and> dataNodeCount props = 1 \<and>
         clientNodeCount props = 0 \<and> \<not> 0 < mlNodeCount props \<longrightarrow>
           map (\<lambda>g. (asg_id g, desiredCapacity g)) (asgs st)
             = [(''seedNodeAsg'', 1), (''dataNodeAsg'', 0)]))"
proof (cases "singleNodeCluster props")
  case True
  then show ?thesis using single_node_shape[OF True assms, of cf sc] by auto
next
  case False
  show ?thesis
    using False
    by (simp add: multi_node_shape[OF False assms refl refl refl refl refl refl refl refl refl]
        find_asg_def)
qed

theorem C5_group_sizes_witness:
  "props_defined (example_props\<lparr>managerNodeCount := 0, dataNodeCount := 1\<rparr>) \<and>
   \<not> singleNodeCluster (example_props\<lparr>managerNodeCount := 0, dataNodeCount := 1\<rparr>) \<and>
   (\<exists>st. InfraStack example_files example_scope
            (example_props\<lparr>managerNodeCount := 0, dataNodeCount := 1\<rparr>) = Inr st \<and>
      (\<exists>g. find_asg ''dataNodeAsg'' st = Some g \<and> desiredCapacity g = 0) \<and>
      map (\<lambda>g. (asg_id g, desiredCapacity g)) (asgs st)
        = [(''seedNodeAsg'', 1), (''dataNodeAsg'', 0)])"
proof -
  let ?p = "example_props\<lparr>managerNodeCount := 0, dataNodeCount := 1\<rparr>"
  have h: "props_defined ?p"
    by (simp add: example_props_def props_defined_def)
  have v: "\<not> singleNodeCluster ?p" "managerNodeCount ?p = 0" "dataNodeCount ?p = 1"
    "clientNodeCount ?p = 0" "\<not> 0 < mlNodeCount ?p"
    by (simp_all add: example_props_def)
  note ex = C5_group_sizes[OF h, of example_files example_scope]
  then obtain st where st: "InfraStack example_files example_scope ?p = Inr st \<and>
     (\<forall>g \<in> set (asgs st). asg_id g \<noteq> ''dataNodeAsg'' \<longrightarrow> desiredCapacity g \<noteq> 0) \<and>
     (\<not> singleNodeCluster ?p \<longrightarrow>
        (\<exists>g. find_asg ''dataNodeAsg'' st = Some g \<and>
             Some (desiredCapacity g) = dataAsgCapacity st \<and>
             desiredCapacity g =
               (if 0 < managerNodeCount ?p then dataNodeCount ?p
                else dataNodeCount ?p - 1)) \<and>
        (managerNodeCount ?p = 0 \<and> dataNodeCount ?p = 1 \<and>
         clientNodeCount ?p = 0 \<and> \<not> 0 < mlNodeCount ?p \<longrightarrow>
           map (\<lambda>g. (asg_id g, desiredCapacity g)) (asgs st)
             = [(''seedNodeAsg'', 1), (''dataNodeAsg'', 0)]))" ..
  note rest = st[THEN conjunct2, THEN conjunct2, THEN mp, OF v(1)]
  have m: "map (\<lambda>g. (asg_id g, desiredCapacity g)) (asgs st)
             = [(''seedNodeAsg'', 1), (''dataNodeAsg'', 0)]"
    using rest[THEN conjunct2] v(2-5) by simp
  from rest[THEN conjunct1] obtain g where g: "find_asg ''dataNodeAsg'' st = Some g \<and>
             Some (desiredCapacity g) = dataAsgCapacity st \<and>
             desiredCapacity g =
               (if 0 < managerNodeCount ?p then dataNodeCount ?p
                else dataNodeCount ?p - 1)" ..
  then have g0: "find_asg ''dataNodeAsg'' st = Some g \<and> desiredCapacity g = 0"
    by (simp add: v(2,3))
  then have gex: "\<exists>g. find_asg ''dataNodeAsg'' st = Some g \<and> desiredCapacity g = 0"
    by (intro exI)
  note r = st[THEN conjunct1]
  have "InfraStack example_files example_scope ?p = Inr st \<and>
      (\<exists>g. find_asg ''dataNodeAsg'' st = Some g \<and> desiredCapacity g = 0) \<and>
      map (\<lambda>g. (asg_id g, desiredCapacity g)) (asgs st)
        = [(''seedNodeAsg'', 1), (''dataNodeAsg'', 0)]"
    using r gex m by (intro conjI)
  then have "\<exists>st. InfraStack example_files example_scope ?p = Inr st \<and>
      (\<exists>g. find_asg ''dataNodeAsg'' st = Some g \<and> desiredCapacity g = 0) \<and>
      map (\<lambda>g. (asg_id g, desiredCapacity g)) (asgs st)
        = [(''seedNodeAsg'', 1), (''dataNodeAsg'', 0)]"
    by (intro exI)
  with h v(1) show ?thesis by (intro conjI)
qed

text \<open>Claim C5 as stated fails for no manager and one data node: a group of size 0 is created.\<close>

theorem C5_counterexample:
  "map_sum id (\<lambda>st. map (\<lambda>g. (asg_id g, desiredCapacity g)) (asgs st))
     (InfraStack example_files example_scope
        (example_props\<lparr>managerNodeCount := 0, dataNodeCount := 1\<rparr>))
     = Inr [(''seedNodeAsg'', 1), (''dataNodeAsg'', 0)]"
proof -
  have h: "\<not> singleNodeCluster (example_props\<lparr>managerNodeCount := 0, dataNodeCount := 1\<rparr>)"
    "props_defined (example_props\<lparr>managerNodeCount := 0, dataNodeCount := 1\<rparr>)"
    by (simp_all add: example_props_def props_defined_def)
  show ?thesis
    by (simp add: multi_node_shape[OF h refl refl refl refl refl refl refl refl refl])
      (simp add: example_props_def)
qed

text \<open>
  Claim C8. In distributed mode with \<open>clientNodeCount = 0\<close> the variable
  \<^verbatim>\<open>clientNodeAsg\<close> holds the reference of the data group: the same position
  in the store, at which the object constructed as \<^verbatim>\<open>dataNodeAsg\<close> stands. No
  client group is created, the tag \<^verbatim>\<open>role: client\<close> lands on the data group,
  and every listener target is that reference.
\<close>

theorem C8_client_target_is_data_group:
  assumes "\<not> singleNodeCluster props" and "props_defined props"
    and "clientNodeCount props = 0"
  shows "\<exists>st r. InfraStack cf sc props = Inr st \<and>
     clientNodeAsg st = Some r \<and> dataNodeAsg st = Some r \<and>
     r < length (asgs st) \<and> asg_id (asgs st ! r) = ''dataNodeAsg'' \<and>
     tags (asgs st ! r) = [(''role'', ''data''), (''role'', ''client'')] \<and>
     (\<forall>g \<in> set (asgs st). asg_id g \<noteq> ''clientNodeAsg'') \<and>
     listenerTargets st \<noteq> [] \<and>
     (\<forall>t \<in> set (listenerTargets st). snd (snd (snd t)) = [AsgTarget r])"
  using assms(3)
  by (auto simp add: multi_node_shape[OF assms(1,2) refl refl refl refl refl refl refl refl refl]
      nth_append)

theorem C8_client_target_is_data_group_witness:
  "\<not> singleNodeCluster example_props \<and> props_defined example_props \<and>
   clientNodeCount example_props = 0 \<and>
   (\<exists>st r. InfraStack example_files example_scope example_props = Inr st \<and>
      clientNodeAsg st = Some r \<and> dataNodeAsg st = Some r \<and>
      r < length (asgs st) \<and> asg_id (asgs st ! r) = ''dataNodeAsg'' \<and>
      tags (asgs st ! r) = [(''role'', ''data''), (''role'', ''client'')] \<and>
      listenerTargets st \<noteq> [])"
proof -
  have h: "\<not> singleNodeCluster example_props" "props_defined example_props"
    "clientNodeCount example_props = 0"
    by (simp_all add: example_props_def props_defined_def)
  note ex = C8_client_target_is_data_group[OF h, of example_files example_scope]
  then obtain st where "\<exists>r. InfraStack example_files example_scope example_props = Inr st \<and>
     clientNodeAsg st = Some r \<and> dataNodeAsg st = Some r \<and>
     r < length (asgs st) \<and> asg_id (asgs st ! r) = ''dataNodeAsg'' \<and>
     tags (asgs st ! r) = [(''role'', ''data''), (''role'', ''client'')] \<and>
     (\<forall>g \<in> set (asgs st). asg_id g \<noteq> ''clientNodeAsg'') \<and>
     listenerTargets st \<noteq> [] \<and>
     (\<forall>t \<in> set (listenerTargets st). snd (snd (snd t)) = [AsgTarget r])" ..
  then obtain r where r: "InfraStack example_files example_scope example_props = Inr st \<and>
     clientNodeAsg st = Some r \<and> dataNodeAsg st = Some r \<and>
     r < length (asgs st) \<and> asg_id (asgs st ! r) = ''dataNodeAsg'' \<and>
     tags (asgs st ! r) = [(''role'', ''data''), (''role'', ''client'')] \<and>
     (\<forall>g \<in> set (asgs st). asg_id g \<noteq> ''clientNodeAsg'') \<and>
     listenerTargets st \<noteq> [] \<and>
     (\<forall>t \<in> set (listenerTargets st). snd (snd (snd t)) = [AsgTarget r])" ..
  then have "InfraStack example_files example_scope example_props = Inr st \<and>
      clientNodeAsg st = Some r \<and> dataNodeAsg st = Some r \<and>
      r < length (asgs st) \<and> asg_id (asgs st ! r) = ''dataNodeAsg'' \<and>
      tags (asgs st ! r) = [(''role'', ''data''), (''role'', ''client'')] \<and>
      listenerTargets st \<noteq> []"
    by simp
  then have "\<exists>st r. InfraStack example_files example_scope example_props = Inr st \<and>
      clientNodeAsg st = Some r \<and> dataNodeAsg st = Some r \<and>
      r < length (asgs st) \<and> asg_id (asgs st ! r) = ''dataNodeAsg'' \<and>
      tags (asgs st ! r) = [(''role'', ''data''), (''role'', ''client'')] \<and>
      listenerTargets st \<noteq> []"
    by (intro exI)
  with h show ?thesis by (intro conjI)
qed

text \<open>
  Claim C10. In distributed mode the seed group carries the one tag
  \<^verbatim>\<open>role: manager\<close>, whichever seed configuration was chosen. The seed
  configuration is \<^verbatim>\<open>seed-data\<close> exactly when there is no manager group, and
  then the instance type and the volume size of the seed are those of the data nodes
  (otherwise the default instance type and 50).
\<close>

theorem C10_seed_tagged_manager:
  assumes "\<not> singleNodeCluster props" and "props_defined props"
  shows "\<exists>st g. InfraStack cf sc props = Inr st \<and>
     find_asg ''seedNodeAsg'' st = Some g \<and>
     tags g = [(''role'', ''manager'')] \<and>
     desiredCapacity g = 1 \<and>
     (seedConfig st = Some ''seed-manager'' \<or> seedConfig st = Some ''seed-data'') \<and>
     (find_asg ''managerNodeAsg'' st = None) = (seedConfig st = Some ''seed-data'') \<and>
     instanceType g =
       (if seedConfig st = Some ''seed-manager'' then Some (defaultInstanceType props)
        else dataEc2InstanceType props) \<and>
     volumeSize g =
       (if seedConfig st = Some ''seed-manager'' then 50 else dataNodeStorage props)"
  by (simp add: multi_node_shape[OF assms(1,2) refl refl refl refl refl refl refl refl refl]
      find_asg_def)

theorem C10_seed_tagged_manager_witness:
  "\<not> singleNodeCluster (example_props\<lparr>managerNodeCount := 0\<rparr>) \<and>
   props_defined (example_props\<lparr>managerNodeCount := 0\<rparr>) \<and>
   (\<exists>st g. InfraStack example_files example_scope (example_props\<lparr>managerNodeCount := 0\<rparr>) = Inr st \<and>
      find_asg ''seedNodeAsg'' st = Some g \<and> find_asg ''managerNodeAsg'' st = None \<and>
      seedConfig st = Some ''seed-data'' \<and>
      tags g = [(''role'', ''manager'')] \<and>
      instanceType g = Some (InstanceType_of R5 XLARGE) \<and> volumeSize g = 100)"
proof -
  let ?p = "example_props\<lparr>managerNodeCount := 0\<rparr>"
  have h: "\<not> singleNodeCluster ?p" "props_defined ?p"
    by (simp_all add: example_props_def props_defined_def)
  have sd: "map_sum id seedConfig (InfraStack example_files example_scope ?p) = Inr (Some ''seed-data'')"
    by (simp add: multi_node_shape[OF h refl refl refl refl refl refl refl refl refl])
  have v: "dataEc2InstanceType ?p = Some (InstanceType_of R5 XLARGE)" "dataNodeStorage ?p = 100"
    by (simp_all add: example_props_def)
  note ex = C10_seed_tagged_manager[OF h, of example_files example_scope]
  then obtain st where "\<exists>g. InfraStack example_files example_scope ?p = Inr st \<and>
     find_asg ''seedNodeAsg'' st = Some g \<and>
     tags g = [(''role'', ''manager'')] \<and>
     desiredCapacity g = 1 \<and>
     (seedConfig st = Some ''seed-manager'' \<or> seedConfig st = Some ''seed-data'') \<and>
     (find_asg ''managerNodeAsg'' st = None) = (seedConfig st = Some ''seed-data'') \<and>
     instanceType g =
       (if seedConfig st = Some ''seed-manager'' then Some (defaultInstanceType ?p)
        else dataEc2InstanceType ?p) \<and>
     volumeSize g =
       (if seedConfig st = Some ''seed-manager'' then 50 else dataNodeStorage ?p)" ..
  then obtain g where g: "InfraStack example_files example_scope ?p = Inr st \<and>
     find_asg ''seedNodeAsg'' st = Some g \<and>
     tags g = [(''role'', ''manager'')] \<and>
     desiredCapacity g = 1 \<and>
     (seedConfig st = Some ''seed-manager'' \<or> seedConfig st = Some ''seed-data'') \<and>
     (find_asg ''managerNodeAsg'' st = None) = (seedConfig st = Some ''seed-data'') \<and>
     instanceType g =
       (if seedConfig st = Some ''seed-manager'' then Some (defaultInstanceType ?p)
        else dataEc2InstanceType ?p) \<and>
     volumeSize g =
       (if seedConfig st = Some ''seed-manager'' then 50 else dataNodeStorage ?p)" ..
  from sd g have s: "seedConfig st = Some ''seed-data''" by simp
  have "InfraStack example_files example_scope ?p = Inr st \<and>
      find_asg ''seedNodeAsg'' st = Some g \<and> find_asg ''managerNodeAsg'' st = None \<and>
      seedConfig st = Some ''seed-data'' \<and>
      tags g = [(''role'', ''manager'')] \<and>
      instanceType g = Some (InstanceType_of R5 XLARGE) \<and> volumeSize g = 100"
    using g s v by simp
  then have "\<exists>st g. InfraStack example_files example_scope ?p = Inr st \<and>
      find_asg ''seedNodeAsg'' st = Some g \<and> find_asg ''managerNodeAsg'' st = None \<and>
      seedConfig st = Some ''seed-data'' \<and>
      tags g = [(''role'', ''manager'')] \<and>
      instanceType g = Some (InstanceType_of R5 XLARGE) \<and> volumeSize g = 100"
    by (intro exI)
  with h show ?thesis by (intro conjI)
qed

section \<open>The configuration assembler\<close>











section \<open>The process supervisor\<close>

lemma usage_echo: "\<forall>a \<in> set usage. \<exists>s. a = Echo s"
  by (simp add: usage_def)

lemma parse_args_output:
  "parse_args k args = (out, r) \<Longrightarrow>
     (\<forall>a \<in> set out. \<exists>s. a = Echo s) \<and> (r \<noteq> None \<longrightarrow> out = [])"
proof (induction k args rule: parse_args.induct)
  case (1 k)
  then show ?case by simp
next
  case (2 k a rest)
  show ?case
  proof (cases "a = ''--kafka-endpoints''")
    case True
    then show ?thesis using 2 by (cases rest) auto
  next
    case False
    then show ?thesis using 2 usage_echo by (auto split: if_splits)
  qed
qed

lemma parse_args_accepted: "parse_args k args = (out, Some v) \<Longrightarrow> out = []"
  using parse_args_output[of k args out "Some v"] by simp


lemma parse_args_no_sleep: "parse_args k args = (out, r) \<Longrightarrow> Sleep m \<notin> set out"
  using parse_args_output[of k args out r] by auto


lemma observe_no_sleep: "Sleep m \<notin> set (observe n)"
  by (simp add: observe_def)

lemma reconcile_port_trace:
  "\<exists>more. trace (fst (reconcile_port e r)) = trace r @ more"
  by (simp add: reconcile_port_def)

lemma start_sidecar_last:
  "\<exists>pre. start_sidecar kafka n = pre @ [Start_capture_proxy kafka]"
  by (simp add: start_sidecar_def)

lemma verify_sidecar_dead:
  "capture_pid_verify n = [] \<Longrightarrow>
   verify_sidecar n =
     [Sleep 5, Pgrep ''trafficCaptureProxyServer'',
      Echo ''Capture Proxy appears to have encountered issue on startup'']
     @ (case nohup_out n of
          None \<Rightarrow> []
        | Some ls \<Rightarrow> [Echo ''Capture Proxy final log statements: '', Tail (drop (length ls - 50) ls)])
     @ [Echo ''Completed startCaptureProxy.sh'']"
  by (simp add: verify_sidecar_def)

lemma supervise_reaches_wait:
  assumes "Sleep 5 \<in> set (trace (supervise kafka n []))"
  shows "exit_status (supervise kafka n []) = 0 \<and>
     (\<exists>pre. trace (supervise kafka n []) = pre @ [Start_capture_proxy kafka] @ verify_sidecar n)"
proof (cases "es_pid n \<noteq> [] \<and> capture_pid n \<noteq> []")
  case True
  then show ?thesis using assms by (simp add: supervise_def observe_def)
next
  case False
  show ?thesis
  proof (cases "filter grep_http_port (yml n) = []")
    case True
    then show ?thesis using assms False by (simp add: supervise_def observe_def Let_def)
  next
    case sel: False
    obtain pre where pre: "start_sidecar kafka n = pre @ [Start_capture_proxy kafka]"
      using start_sidecar_last by blast
    show ?thesis
      using False sel
      by (auto simp: supervise_def Let_def pre split: prod.splits)
  qed
qed

lemma grep_http_port_nonempty: "grep_http_port l \<Longrightarrow> l \<noteq> []"
  by (cases l) simp_all

lemma join_lines_nonempty:
  "ls \<noteq> [] \<Longrightarrow> \<forall>l \<in> set ls. l \<noteq> [] \<Longrightarrow> join_lines ls \<noteq> []"
  by (induction ls rule: join_lines.induct) simp_all

lemma selected_entry_nonempty:
  "filter grep_http_port ls \<noteq> [] \<Longrightarrow> join_lines (filter grep_http_port ls) \<noteq> []"
  by (rule join_lines_nonempty) (auto dest: grep_http_port_nonempty)

text \<open>
  Claim C3, as the code has it. When a run reaches the wait and the sidecar is not
  observed afterwards, the script prints a diagnostic line, prints the last 50 lines of
  \<^verbatim>\<open>nohup.out\<close> only if that file exists, prints the completion line and ends
  with status 0. Nothing is executed after the launch of the sidecar but these
  commands, so the primary is left as it is.
\<close>

theorem C3_sidecar_not_alive:
  assumes "Sleep 5 \<in> set (trace (startCaptureProxy args n))"
    and "capture_pid_verify n = []"
  shows "exit_status (startCaptureProxy args n) = 0 \<and>
     (\<exists>pre kafka. trace (startCaptureProxy args n) =
        pre @ [Start_capture_proxy kafka, Sleep 5, Pgrep ''trafficCaptureProxyServer'',
               Echo ''Capture Proxy appears to have encountered issue on startup'']
        @ (case nohup_out n of
             None \<Rightarrow> []
           | Some ls \<Rightarrow> [Echo ''Capture Proxy final log statements: '',
                         Tail (drop (length ls - 50) ls)])
        @ [Echo ''Completed startCaptureProxy.sh''])"
proof (cases "parse_args [] args")
  case (Pair out r)
  show ?thesis
  proof (cases r)
    case None
    then show ?thesis
      using Pair assms(1) parse_args_no_sleep[OF Pair, of 5] by (simp add: startCaptureProxy_def)
  next
    case (Some kafka)
    with Pair have out: "out = []" using parse_args_accepted by blast
    then have eq: "startCaptureProxy args n = supervise kafka n []"
      using Pair Some by (simp add: startCaptureProxy_def)
    from assms(1) have "Sleep 5 \<in> set (trace (supervise kafka n []))"
      by (simp add: eq)
    from supervise_reaches_wait[OF this]
    obtain pre where "exit_status (supervise kafka n []) = 0"
      "trace (supervise kafka n []) = pre @ [Start_capture_proxy kafka] @ verify_sidecar n"
      by blast
    then show ?thesis
      by (simp add: eq verify_sidecar_dead[OF assms(2)])
  qed
qed

theorem C3_sidecar_not_alive_witness:
  "Sleep 5 \<in> set (trace (startCaptureProxy [''--kafka-endpoints'', ''b:9092''] example_node)) \<and>
   capture_pid_verify example_node = [] \<and>
   nohup_out example_node = None \<and>
   exit_status (startCaptureProxy [''--kafka-endpoints'', ''b:9092''] example_node) = 0"
proof -
  have h: "Sleep 5 \<in> set (trace (startCaptureProxy [''--kafka-endpoints'', ''b:9092''] example_node))"
    "capture_pid_verify example_node = []"
    by (simp_all add: startCaptureProxy_def supervise_def example_node_def Let_def
        reconcile_port_def http_port_here_def verify_sidecar_def)
  have n: "nohup_out example_node = None"
    by (simp add: example_node_def)
  note t = C3_sidecar_not_alive[OF h, THEN conjunct1]
  show ?thesis using h n t by (intro conjI)
qed

text \<open>
  Claim C3 as stated fails: the sidecar is not observed after the wait, the exit status
  is 0, and without \<^verbatim>\<open>nohup.out\<close> no log is printed.
\<close>

theorem C3_counterexample:
  "Sleep 5 \<in> set (trace (startCaptureProxy [''--kafka-endpoints'', ''b:9092''] example_node)) \<and>
   capture_pid_verify example_node = [] \<and>
   exit_status (startCaptureProxy [''--kafka-endpoints'', ''b:9092''] example_node) = 0 \<and>
   filter log_tail
     (trace (startCaptureProxy [''--kafka-endpoints'', ''b:9092''] example_node)) = []"
  by (simp add: startCaptureProxy_def supervise_def example_node_def Let_def
      reconcile_port_def http_port_here_def verify_sidecar_def observe_def start_service_def
      start_sidecar_def)

text \<open>
  Claim C4 against the code. Without any argument the option loop ends at once, nothing
  checks that \<^verbatim>\<open>--kafka-endpoints\<close> was given, and the script goes on: it
  reads the process table, rewrites the port, restarts the primary and starts the
  sidecar with an empty connection string.
\<close>

theorem C4_missing_option_evaluated:
  "startCaptureProxy [] example_node =
     \<lparr> trace =
         [ Pgrep ''bin/elasticsearch'', Echo ''Elasticsearch process PID: 4242'',
           Pgrep ''trafficCaptureProxyServer'', Echo ''No running Capture Proxy process detected'',
           Cd ''/home/ec2-user/elasticsearch/config'', Grep_http_port,
           Echo ''Replacing existing http.port: 9200'', Sed_config,
           Cd ''/home/ec2-user/elasticsearch'',
           Echo ''Restarting Elasticsearch process'', Kill ''4242'', Start_elasticsearch,
           Export_JAVA_HOME, Cd ''/home/ec2-user/capture-proxy/trafficCaptureProxyServer/bin'',
           Echo ''Starting Capture Proxy process'', Start_capture_proxy [],
           Sleep 5, Pgrep ''trafficCaptureProxyServer'',
           Echo ''Capture Proxy appears to have encountered issue on startup'',
           Echo ''Completed startCaptureProxy.sh'' ],
       config = [''cluster.name: demo'', ''http.port: 19200''],
       exit_status = 0 \<rparr>"
  by (simp add: startCaptureProxy_def supervise_def example_node_def Let_def
      reconcile_port_def http_port_here_def verify_sidecar_def observe_def start_service_def
      start_sidecar_def sed_here_def is_digit_def)

text \<open>
  For \<^verbatim>\<open>-h\<close>, \<^verbatim>\<open>--help\<close> and an unknown option, standing where
  the loop reads an option, usage is printed, the status is 1 and the process table is
  not read.
\<close>

lemma usage_on_help_or_unknown_option:
  assumes "a = ''-h'' \<or> a = ''--help'' \<or> (take 1 a = ''-'' \<and> a \<noteq> ''--kafka-endpoints'')"
  shows "exit_status (startCaptureProxy (a # rest) n) = 1 \<and>
     filter inspection (trace (startCaptureProxy (a # rest) n)) = [] \<and>
     filter mutation (trace (startCaptureProxy (a # rest) n)) = [] \<and>
     (\<exists>pre. trace (startCaptureProxy (a # rest) n) = pre @ usage)"
  using assms by (auto simp: startCaptureProxy_def usage_def)




text \<open>
  Claim C7 against the code. When no line of the configuration file matches
  \<^verbatim>\<open>http.port\<close>, the assignment of line 58 ends the script with status 1:
  nothing is appended, and neither process is started.
\<close>

theorem C7_absent_setting_evaluated:
  "startCaptureProxy [''--kafka-endpoints'', ''b:9092'']
       (example_node\<lparr>yml := [''cluster.name: demo'']\<rparr>) =
     \<lparr> trace =
         [ Pgrep ''bin/elasticsearch'', Echo ''Elasticsearch process PID: 4242'',
           Pgrep ''trafficCaptureProxyServer'', Echo ''No running Capture Proxy process detected'',
           Cd ''/home/ec2-user/elasticsearch/config'', Grep_http_port ],
       config = [''cluster.name: demo''],
       exit_status = 1 \<rparr>"
  by (simp add: startCaptureProxy_def supervise_def example_node_def Let_def
      http_port_here_def observe_def)

text \<open>
  The branch that appends the setting is never taken: the selected text is empty only
  when \<^verbatim>\<open>grep\<close> selects no line, and then the script has ended. When
  the setting is present, a selected text equal to the expected line leaves the file
  and a running primary alone; any other selected text rewrites the file with
  \<^verbatim>\<open>sed\<close> and starts the primary, after killing it when it was running.
\<close>

lemma append_branch_unreachable:
  "Append_config s \<notin> set (trace (startCaptureProxy args n))"
proof (cases "parse_args [] args")
  case (Pair out r)
  have out: "Append_config s \<notin> set out"
    using parse_args_output[OF Pair] by auto
  show ?thesis
  proof (cases r)
    case None
    then show ?thesis using Pair out by (simp add: startCaptureProxy_def)
  next
    case (Some kafka)
    show ?thesis
    proof (cases "filter grep_http_port (yml n) = []")
      case True
      then show ?thesis
        using Pair Some out
        by (simp add: startCaptureProxy_def supervise_def Let_def observe_def)
    next
      case False
      from selected_entry_nonempty[OF False] show ?thesis
        using Pair Some out False
        by (auto simp: startCaptureProxy_def supervise_def Let_def observe_def
            reconcile_port_def start_service_def start_sidecar_def verify_sidecar_def
            split: option.splits)
    qed
  qed
qed

lemma port_setting_present:
  assumes "snd (parse_args [] args) \<noteq> None"
    and "\<not> (es_pid n \<noteq> [] \<and> capture_pid n \<noteq> [])"
    and "filter grep_http_port (yml n) \<noteq> []"
  shows "if join_lines (filter grep_http_port (yml n)) = ''http.port: 19200''
     then config (startCaptureProxy args n) = yml n \<and>
          Sed_config \<notin> set (trace (startCaptureProxy args n)) \<and>
          (es_pid n \<noteq> [] \<longrightarrow> Start_elasticsearch \<notin> set (trace (startCaptureProxy args n)))
     else config (startCaptureProxy args n) = map sed_line (yml n) \<and>
          Sed_config \<in> set (trace (startCaptureProxy args n)) \<and>
          Start_elasticsearch \<in> set (trace (startCaptureProxy args n)) \<and>
          (es_pid n \<noteq> [] \<longrightarrow> Kill (es_pid n) \<in> set (trace (startCaptureProxy args n)))"
proof (cases "parse_args [] args")
  case (Pair out r)
  with assms(1) obtain kafka where r: "r = Some kafka" by auto
  with Pair have out: "out = []" using parse_args_accepted by blast
  from selected_entry_nonempty[OF assms(3)] show ?thesis
    using Pair r out assms(2,3)
    by (auto simp: startCaptureProxy_def supervise_def Let_def observe_def
        reconcile_port_def start_service_def start_sidecar_def verify_sidecar_def
        split: option.splits)
qed

end
